theory Spec2Isabelle
  imports Main
begin

section \<open>Strings of the host language\<close>

text \<open>
  A string of the program is a sequence of UTF-16 code units. A code unit is modelled by
  its number, so that the character classes of the regular expressions (\<open>\w\<close>, \<open>\s\<close>) are
  the ones of the language and not those of an eight-bit alphabet. Literals of the source
  are written \<open>str ''...''\<close>.
\<close>

type_synonym code_unit = nat
type_synonym jsstring = "code_unit list"

definition str :: "string \<Rightarrow> jsstring" where
  "str cs = map of_char cs"

text \<open>\<open>s.startsWith(t)\<close>, \<open>s.includes(t)\<close> and \<open>s.substring(i, j)\<close> for \<open>i \<le> j\<close>.\<close>

definition startsWith :: "jsstring \<Rightarrow> jsstring \<Rightarrow> bool" where
  "startsWith s t = (take (length t) s = t)"

definition includes_str :: "jsstring \<Rightarrow> jsstring \<Rightarrow> bool" where
  "includes_str s t = list_ex (\<lambda>i. take (length t) (drop i s) = t) [0..<Suc (length s)]"

definition substring :: "jsstring \<Rightarrow> nat \<Rightarrow> nat \<Rightarrow> jsstring" where
  "substring s i j = take (j - i) (drop i s)"

text \<open>
  \<open>is_word\<close> is the class \<open>\w\<close> (\<open>[A-Za-z0-9_]\<close>); \<open>is_space\<close> is the class \<open>\s\<close>: the
  white space and line terminator code points of the language (tab, line feed, vertical tab,
  form feed, carriage return, space, no-break space, U+1680, U+2000 to U+200A, U+2028,
  U+2029, U+202F, U+205F, U+3000 and U+FEFF).
\<close>

definition is_word :: "code_unit \<Rightarrow> bool" where
  "is_word c = ((48 \<le> c \<and> c \<le> 57) \<or> (65 \<le> c \<and> c \<le> 90) \<or> c = 95 \<or> (97 \<le> c \<and> c \<le> 122))"

definition is_space :: "code_unit \<Rightarrow> bool" where
  "is_space c = ((9 \<le> c \<and> c \<le> 13) \<or> c = 32 \<or> c = 160 \<or> c = 5760 \<or> (8192 \<le> c \<and> c \<le> 8202)
     \<or> c = 8232 \<or> c = 8233 \<or> c = 8239 \<or> c = 8287 \<or> c = 12288 \<or> c = 65279)"

text \<open>
  Case folding of a pattern with the flag \<open>i\<close> and without the flag \<open>u\<close>: a code unit is
  compared through its upper-case form, and a code unit outside ASCII is never folded onto
  an ASCII one. The patterns of the program contain ASCII characters only, for which it is
  enough to fold the ASCII letters: a code unit outside ASCII stays outside ASCII.
\<close>

definition canon :: "code_unit \<Rightarrow> code_unit" where
  "canon c = (if 97 \<le> c \<and> c \<le> 122 then c - 32 else c)"

section \<open>Regular expressions: a backtracking matcher\<close>

text \<open>
  The fragment of the pattern language that the two patterns of the program use. \<open>Empty\<close>
  is the empty pattern, which ends every literal below. \<open>Group\<close> is the capturing group
  (each pattern has exactly one, number 1); a group that does not capture, \<open>(?:r)\<close>, is
  \<open>r\<close> itself.
\<close>

datatype regex =
    Empty
  | Lit code_unit
  | Word
  | Space
  | WordB
  | Seq regex regex
  | Alt regex regex
  | Plus regex
  | Opt regex
  | Group regex

text \<open>The pattern that matches the characters of a literal one after the other.\<close>

fun lits :: "jsstring \<Rightarrow> regex" where
  "lits [] = Empty"
| "lits (c # cs) = Seq (Lit c) (lits cs)"

text \<open>
  A state of the matcher is the index reached in the input and the span of capture 1, if
  set. \<open>ms r s st\<close> lists the states in which \<open>r\<close> can end when started in \<open>st\<close> on the input
  \<open>s\<close>, in the order in which backtracking tries them: the first alternative before the
  second, one more repetition before none (the quantifiers are greedy).
\<close>

type_synonym mstate = "nat \<times> (nat \<times> nat) option"

definition word_at :: "jsstring \<Rightarrow> nat \<Rightarrow> bool" where
  "word_at s i = (i < length s \<and> is_word (s ! i))"

definition at_boundary :: "jsstring \<Rightarrow> nat \<Rightarrow> bool" where
  "at_boundary s i = ((0 < i \<and> word_at s (i - 1)) \<noteq> word_at s i)"

primrec has_group :: "regex \<Rightarrow> bool" where
  "has_group Empty = False"
| "has_group (Lit c) = False"
| "has_group Word = False"
| "has_group Space = False"
| "has_group WordB = False"
| "has_group (Seq a b) = (has_group a \<or> has_group b)"
| "has_group (Alt a b) = (has_group a \<or> has_group b)"
| "has_group (Plus a) = has_group a"
| "has_group (Opt a) = has_group a"
| "has_group (Group a) = True"

text \<open>An iteration of a quantified pattern starts with the captures of its body cleared.\<close>

definition enter :: "regex \<Rightarrow> mstate \<Rightarrow> mstate" where
  "enter r st = (if has_group r then (fst st, None) else st)"

text \<open>
  Further iterations of a body \<open>f\<close> after the first one. An iteration that consumes nothing
  is rejected, so every iteration advances, and no more than \<open>length s\<close> of them fit.
\<close>

primrec further :: "(mstate \<Rightarrow> mstate list) \<Rightarrow> nat \<Rightarrow> mstate \<Rightarrow> mstate list" where
  "further f 0 st = [st]"
| "further f (Suc n) st =
     concat (map (\<lambda>st'. if fst st < fst st' then further f n st' else []) (f st)) @ [st]"

primrec ms :: "regex \<Rightarrow> jsstring \<Rightarrow> mstate \<Rightarrow> mstate list" where
  "ms Empty s st = [st]"
| "ms (Lit c) s st =
     (if fst st < length s \<and> canon (s ! fst st) = canon c then [(Suc (fst st), snd st)] else [])"
| "ms Word s st =
     (if fst st < length s \<and> is_word (s ! fst st) then [(Suc (fst st), snd st)] else [])"
| "ms Space s st =
     (if fst st < length s \<and> is_space (s ! fst st) then [(Suc (fst st), snd st)] else [])"
| "ms WordB s st = (if at_boundary s (fst st) then [st] else [])"
| "ms (Seq a b) s st = concat (map (ms b s) (ms a s st))"
| "ms (Alt a b) s st = ms a s st @ ms b s st"
| "ms (Plus a) s st =
     concat (map (further (\<lambda>st'. ms a s (enter a st')) (length s)) (ms a s (enter a st)))"
| "ms (Opt a) s st = filter (\<lambda>st'. fst st' \<noteq> fst st) (ms a s (enter a st)) @ [st]"
| "ms (Group a) s st = map (\<lambda>st'. (fst st', Some (fst st, fst st'))) (ms a s st)"

text \<open>One attempt at index \<open>i\<close>: the first state the backtracking reaches, if any.\<close>

definition exec :: "regex \<Rightarrow> jsstring \<Rightarrow> nat \<Rightarrow> mstate option" where
  "exec r s i = (case ms r s (i, None) of [] \<Rightarrow> None | st # _ \<Rightarrow> Some st)"

text \<open>
  \<open>r.test(s)\<close> for a pattern without the flag \<open>g\<close>: the attempt is made at index 0, then 1,
  up to the length of the input.
\<close>

definition re_test :: "regex \<Rightarrow> jsstring \<Rightarrow> bool" where
  "re_test r s = list_ex (\<lambda>i. exec r s i \<noteq> None) [0..<Suc (length s)]"

text \<open>
  \<open>s.replace(r, f)\<close> for a pattern with the flag \<open>g\<close> and a replacer function \<open>f\<close>, which
  receives the matched text and capture 1 (\<open>None\<close> is \<open>undefined\<close>) and may throw. The
  attempt is made at index \<open>i\<close>, then at the next one, up to the length of the input. The
  text between two matches is copied; the search resumes at the end of a match, one index
  further after an empty match; the text a replacer returns is not searched again. \<open>src\<close>
  is the index from which the input has not been copied yet.
\<close>

function re_replace_from ::
  "regex \<Rightarrow> (jsstring \<Rightarrow> jsstring option \<Rightarrow> 'e + jsstring) \<Rightarrow> jsstring \<Rightarrow> nat \<Rightarrow> nat \<Rightarrow> 'e + jsstring"
where
  "re_replace_from r f s src i =
     (if length s < i then Inr (drop src s)
      else case exec r s i of
        None \<Rightarrow> re_replace_from r f s src (Suc i)
      | Some (j, cap) \<Rightarrow>
          (case f (substring s i j) (map_option (\<lambda>(a, b). substring s a b) cap) of
             Inl e \<Rightarrow> Inl e
           | Inr rep \<Rightarrow>
               (case re_replace_from r f s j (if j \<le> i then Suc i else j) of
                  Inl e \<Rightarrow> Inl e
                | Inr rest \<Rightarrow> Inr (substring s src i @ rep @ rest))))"
  by pat_completeness auto
termination
  by (relation "measure (\<lambda>(r, f, s, src, i). Suc (length s) - i)") auto

declare re_replace_from.simps [simp del]

definition re_replace ::
  "regex \<Rightarrow> (jsstring \<Rightarrow> jsstring option \<Rightarrow> 'e + jsstring) \<Rightarrow> jsstring \<Rightarrow> 'e + jsstring" where
  "re_replace r f s = re_replace_from r f s 0 0"

section \<open>Errors\<close>

text \<open>A thrown value: \<open>new Error(message)\<close> or a \<open>TypeError\<close> of the runtime or of a library.\<close>

datatype js_error = Error jsstring | TypeError jsstring

section \<open>Startup: \<open>parseArgs\<close> and the project identifier check of \<open>validateConfig\<close>\<close>

record ServerConfig =
  projectId :: jsstring
  location :: "jsstring option"
  keyFilename :: "jsstring option"

text \<open>
  The loop of \<open>parseArgs\<close> over \<open>process.argv.slice(2)\<close>: each step reads an argument and its
  value and moves two places on.
\<close>

fun parseArgs_loop :: "jsstring list \<Rightarrow> ServerConfig \<Rightarrow> js_error + ServerConfig" where
  "parseArgs_loop [] config = Inr config"
| "parseArgs_loop (arg # rest) config =
     (if \<not> startsWith arg (str ''--'') then Inl (Error (str ''Invalid argument: '' @ arg))
      else case rest of
        [] \<Rightarrow> Inl (Error (str ''Missing value for argument: '' @ arg))
      | v # rest' \<Rightarrow>
          if startsWith v (str ''--'') then Inl (Error (str ''Missing value for argument: '' @ arg))
          else if drop 2 arg = str ''project-id'' then parseArgs_loop rest' (config\<lparr>projectId := v\<rparr>)
          else if drop 2 arg = str ''location'' then parseArgs_loop rest' (config\<lparr>location := Some v\<rparr>)
          else if drop 2 arg = str ''key-file'' then parseArgs_loop rest' (config\<lparr>keyFilename := Some v\<rparr>)
          else Inl (Error (str ''Unknown argument: '' @ arg)))"

definition usage :: jsstring where
  "usage = str ''Missing required argument: --project-id'' @ [10] @
     str ''Usage: mcp-server-bigquery --project-id <project-id> [--location <location>] [--key-file <path-to-key-file>]''"

definition parseArgs :: "jsstring list \<Rightarrow> js_error + ServerConfig" where
  "parseArgs args =
     (case parseArgs_loop args \<lparr>projectId = [], location = Some (str ''US''), keyFilename = None\<rparr> of
        Inl e \<Rightarrow> Inl e
      | Inr config \<Rightarrow> if projectId config = [] then Inl (Error usage) else Inr config)"

text \<open>
  The last check of \<open>validateConfig\<close>, \<open>/^[a-z0-9-]+$/.test(config.projectId)\<close>: the server
  exits at startup unless it holds, so every handler runs with a project identifier of
  this form.
\<close>

definition is_projectId_char :: "code_unit \<Rightarrow> bool" where
  "is_projectId_char c = ((97 \<le> c \<and> c \<le> 122) \<or> (48 \<le> c \<and> c \<le> 57) \<or> c = 45)"

definition projectId_format_ok :: "jsstring \<Rightarrow> bool" where
  "projectId_format_ok p = (p \<noteq> [] \<and> list_all is_projectId_char p)"

section \<open>The two patterns and \<open>qualifyTablePath\<close>\<close>

text \<open>
  \<^verbatim>\<open>/\b(INSERT|UPDATE|DELETE|CREATE|DROP|ALTER|MERGE|TRUNCATE|GRANT|REVOKE|EXECUTE|BEGIN|COMMIT|ROLLBACK)\b/i\<close>
\<close>

definition forbiddenPattern :: regex where
  "forbiddenPattern =
     Seq WordB (Seq (Group
       (Alt (lits (str ''INSERT'')) (Alt (lits (str ''UPDATE'')) (Alt (lits (str ''DELETE''))
       (Alt (lits (str ''CREATE'')) (Alt (lits (str ''DROP'')) (Alt (lits (str ''ALTER''))
       (Alt (lits (str ''MERGE'')) (Alt (lits (str ''TRUNCATE'')) (Alt (lits (str ''GRANT''))
       (Alt (lits (str ''REVOKE'')) (Alt (lits (str ''EXECUTE'')) (Alt (lits (str ''BEGIN''))
       (Alt (lits (str ''COMMIT'')) (lits (str ''ROLLBACK'')))))))))))))))) WordB)"

text \<open>\<^verbatim>\<open>/FROM\s+(?:(\w+)\.)?INFORMATION_SCHEMA\.TABLES/gi\<close>\<close>

definition unqualifiedPattern :: regex where
  "unqualifiedPattern =
     Seq (lits (str ''FROM'')) (Seq (Plus Space)
       (Seq (Opt (Seq (Group (Plus Word)) (Lit 46))) (lits (str ''INFORMATION_SCHEMA.TABLES''))))"

definition dataset_required :: js_error where
  "dataset_required = Error (str
     ''Dataset must be specified when querying INFORMATION_SCHEMA (e.g. dataset.INFORMATION_SCHEMA.TABLES)'')"

text \<open>The replacer of \<open>qualifyTablePath\<close>; \<open>if (dataset)\<close> holds for a non-empty string.\<close>

definition qualify_match :: "jsstring \<Rightarrow> jsstring \<Rightarrow> jsstring option \<Rightarrow> js_error + jsstring" where
  "qualify_match project matched dataset =
     (case dataset of
        None \<Rightarrow> Inl dataset_required
      | Some d \<Rightarrow>
          if d \<noteq> [] then Inr (str ''FROM `'' @ project @ str ''.'' @ d @ str ''.INFORMATION_SCHEMA.TABLES`'')
          else Inl dataset_required)"

definition qualifyTablePath :: "jsstring \<Rightarrow> jsstring \<Rightarrow> js_error + jsstring" where
  "qualifyTablePath sql project = re_replace unqualifiedPattern (qualify_match project) sql"

section \<open>The warehouse client and the platform\<close>

text \<open>
  The client of the warehouse is a collaborator of the program: its operations are
  parameters of the handlers, and each one may fail with an error of the client. A handler
  returns its outcome with the list of the requests it sent to the warehouse through the
  client, in order. \<open>undefined\<close> for an identifier is \<open>None\<close>.

  \<open>bigquery.dataset(id)\<close> and \<open>dataset.table(id)\<close> build the handle of a dataset and of a
  table from identifiers and send nothing to the warehouse: \<open>bq_dataset d\<close> is the error
  that \<open>bigquery.dataset(d)\<close> throws, if it throws, and \<open>bq_table d t\<close> the error that
  \<open>table(t)\<close> throws on the handle of the dataset \<open>d\<close>. \<open>bq_getMetadata d t\<close> is
  \<open>getMetadata()\<close> on the handle of the table \<open>t\<close> of the dataset \<open>d\<close>, a request to the
  warehouse.
\<close>

record QueryOptions =
  query :: jsstring
  query_location :: "jsstring option"
  query_maximumBytesBilled :: jsstring

record 'f Metadata =
  md_type :: jsstring
  md_fields :: 'f

record ('r, 'f) BigQuery =
  bq_query :: "QueryOptions \<Rightarrow> js_error + 'r"
  bq_getDatasets :: "js_error + jsstring list"
  bq_getTables :: "jsstring \<Rightarrow> js_error + jsstring list"
  bq_dataset :: "jsstring option \<Rightarrow> js_error option"
  bq_table :: "jsstring option \<Rightarrow> jsstring option \<Rightarrow> js_error option"
  bq_getMetadata :: "jsstring option \<Rightarrow> jsstring option \<Rightarrow> js_error + 'f Metadata"

datatype client_call =
    CallQuery QueryOptions
  | CallGetDatasets
  | CallGetTables jsstring
  | CallGetMetadata "jsstring option" "jsstring option"

text \<open>
  The \<open>URL\<close> class of the runtime, as far as the handlers use it: \<open>URL_href input base\<close> is
  \<open>new URL(input, base).href\<close> (\<open>new URL(input).href\<close> without a base) and \<open>URL_pathname input\<close>
  is \<open>new URL(input).pathname\<close>; \<open>None\<close> when the constructor throws.
\<close>

record URL_api =
  URL_href :: "jsstring \<Rightarrow> jsstring option \<Rightarrow> jsstring option"
  URL_pathname :: "jsstring \<Rightarrow> jsstring option"

definition invalid_url :: js_error where
  "invalid_url = TypeError (str ''Invalid URL'')"

section \<open>The resource handlers\<close>

definition SCHEMA_PATH :: jsstring where
  "SCHEMA_PATH = str ''schema''"

record Resource =
  uri :: jsstring
  mimeType :: jsstring
  name :: jsstring

text \<open>\<open>resourceBaseUrl = new URL(`bigquery://${config.projectId}`)\<close>, kept by its \<open>href\<close>.\<close>

definition resourceBaseUrl :: "URL_api \<Rightarrow> ServerConfig \<Rightarrow> jsstring option" where
  "resourceBaseUrl U config = URL_href U (str ''bigquery://'' @ projectId config) None"

text \<open>The inner loop of the \<open>ListResourcesRequestSchema\<close> handler, over the tables of a dataset.\<close>

fun table_resources ::
  "URL_api \<Rightarrow> jsstring \<Rightarrow> ('r, 'f) BigQuery \<Rightarrow> jsstring \<Rightarrow> jsstring list
     \<Rightarrow> (js_error + Resource list) \<times> client_call list" where
  "table_resources U base bigquery d [] = (Inr [], [])"
| "table_resources U base bigquery d (t # ts) =
     (case bq_getMetadata bigquery (Some d) (Some t) of
        Inl e \<Rightarrow> (Inl e, [CallGetMetadata (Some d) (Some t)])
      | Inr metadata \<Rightarrow>
          (case URL_href U (d @ str ''/'' @ t @ str ''/'' @ SCHEMA_PATH) (Some base) of
             None \<Rightarrow> (Inl invalid_url, [CallGetMetadata (Some d) (Some t)])
           | Some href \<Rightarrow>
               (case table_resources U base bigquery d ts of
                  (Inl e, calls) \<Rightarrow> (Inl e, CallGetMetadata (Some d) (Some t) # calls)
                | (Inr rs, calls) \<Rightarrow>
                    (Inr (\<lparr>uri = href, mimeType = str ''application/json'',
                           name = str ''\"'' @ d @ str ''.'' @ t @ str ''\" ''
                             @ (if md_type metadata = str ''VIEW'' then str ''view'' else str ''table'')
                             @ str '' schema''\<rparr> # rs),
                     CallGetMetadata (Some d) (Some t) # calls))))"

text \<open>The outer loop, over the datasets.\<close>

fun dataset_resources ::
  "URL_api \<Rightarrow> jsstring \<Rightarrow> ('r, 'f) BigQuery \<Rightarrow> jsstring list
     \<Rightarrow> (js_error + Resource list) \<times> client_call list" where
  "dataset_resources U base bigquery [] = (Inr [], [])"
| "dataset_resources U base bigquery (d # ds) =
     (case bq_getTables bigquery d of
        Inl e \<Rightarrow> (Inl e, [CallGetTables d])
      | Inr tables \<Rightarrow>
          (case table_resources U base bigquery d tables of
             (Inl e, calls) \<Rightarrow> (Inl e, CallGetTables d # calls)
           | (Inr rs, calls) \<Rightarrow>
               (case dataset_resources U base bigquery ds of
                  (Inl e, calls') \<Rightarrow> (Inl e, CallGetTables d # calls @ calls')
                | (Inr rs', calls') \<Rightarrow> (Inr (rs @ rs'), CallGetTables d # calls @ calls'))))"

definition listResources ::
  "URL_api \<Rightarrow> jsstring \<Rightarrow> ('r, 'f) BigQuery \<Rightarrow> (js_error + Resource list) \<times> client_call list" where
  "listResources U base bigquery =
     (case bq_getDatasets bigquery of
        Inl e \<Rightarrow> (Inl e, [CallGetDatasets])
      | Inr datasets \<Rightarrow>
          (case dataset_resources U base bigquery datasets of
             (res, calls) \<Rightarrow> (res, CallGetDatasets # calls)))"

text \<open>\<open>s.split("/")\<close> and \<open>xs.pop()\<close>, which gives \<open>undefined\<close> on an empty array.\<close>

fun split_on :: "code_unit \<Rightarrow> jsstring \<Rightarrow> jsstring list" where
  "split_on sep [] = [[]]"
| "split_on sep (c # cs) =
     (if c = sep then [] # split_on sep cs
      else case split_on sep cs of x # xs \<Rightarrow> (c # x) # xs | [] \<Rightarrow> [[c]])"

definition pop :: "'a list \<Rightarrow> 'a option \<times> 'a list" where
  "pop xs = (if xs = [] then (None, []) else (Some (last xs), butlast xs))"

record 'f ResourceContents =
  rc_uri :: jsstring
  rc_mimeType :: jsstring
  rc_text :: 'f

text \<open>
  The \<open>ReadResourceRequestSchema\<close> handler: after the test of the marker come the three
  calls \<open>bigquery.dataset(datasetId)\<close>, \<open>dataset.table(tableId)\<close> and \<open>table.getMetadata()\<close>,
  of which only the last one sends a request. \<open>JSON.stringify\<close> is not modelled: the
  contents carry the field list that is serialised.
\<close>

definition readResource ::
  "URL_api \<Rightarrow> ('r, 'f) BigQuery \<Rightarrow> jsstring
     \<Rightarrow> (js_error + 'f ResourceContents) \<times> client_call list" where
  "readResource U bigquery request_uri =
     (case URL_pathname U request_uri of
        None \<Rightarrow> (Inl invalid_url, [])
      | Some pathname \<Rightarrow>
          (let pathComponents = split_on 47 pathname;
               (schema, pathComponents1) = pop pathComponents;
               (tableId, pathComponents2) = pop pathComponents1;
               (datasetId, pathComponents3) = pop pathComponents2
           in if schema \<noteq> Some SCHEMA_PATH then (Inl (Error (str ''Invalid resource URI'')), [])
              else case bq_dataset bigquery datasetId of
                     Some e \<Rightarrow> (Inl e, [])
                   | None \<Rightarrow>
                       (case bq_table bigquery datasetId tableId of
                          Some e \<Rightarrow> (Inl e, [])
                        | None \<Rightarrow>
                            (case bq_getMetadata bigquery datasetId tableId of
                               Inl e \<Rightarrow> (Inl e, [CallGetMetadata datasetId tableId])
                             | Inr metadata \<Rightarrow>
                                 (Inr \<lparr>rc_uri = request_uri,
                                       rc_mimeType = str ''application/json'',
                                       rc_text = md_fields metadata\<rparr>,
                                  [CallGetMetadata datasetId tableId])))))"

section \<open>The tool handler\<close>

record ToolRequest =
  tool_name :: jsstring
  sql :: "jsstring option"
  maximumBytesBilled :: "jsstring option"

record 'r ToolResult =
  content :: 'r
  isError :: bool

definition read_only_violation :: js_error where
  "read_only_violation = Error (str ''Only READ operations are allowed'')"

definition undefined_toUpperCase :: js_error where
  "undefined_toUpperCase = TypeError
     (str ''Cannot read properties of undefined (reading '' @ [39] @ str ''toUpperCase'' @ [39] @ str '')'')"

text \<open>
  The \<open>CallToolRequestSchema\<close> handler. \<open>toUpperCase\<close> is \<open>String.prototype.toUpperCase\<close> of
  the runtime. A missing \<open>sql\<close> argument is \<open>undefined\<close>, which \<open>test\<close> reads as the string
  \<open>undefined\<close> and on which \<open>toUpperCase\<close> throws; \<open>||\<close> replaces a missing or empty
  \<open>maximumBytesBilled\<close>. \<open>JSON.stringify\<close> is not modelled: the result carries the rows.
\<close>

definition callTool ::
  "(jsstring \<Rightarrow> jsstring) \<Rightarrow> ServerConfig \<Rightarrow> ('r, 'f) BigQuery \<Rightarrow> ToolRequest
     \<Rightarrow> (js_error + 'r ToolResult) \<times> client_call list" where
  "callTool toUpperCase config bigquery request =
     (if tool_name request = str ''query'' then
        (let bytes = (case maximumBytesBilled request of
                        None \<Rightarrow> str ''1000000000''
                      | Some m \<Rightarrow> if m = [] then str ''1000000000'' else m)
         in if re_test forbiddenPattern (case sql request of None \<Rightarrow> str ''undefined'' | Some s \<Rightarrow> s)
            then (Inl read_only_violation, [])
            else case sql request of
              None \<Rightarrow> (Inl undefined_toUpperCase, [])
            | Some s \<Rightarrow>
                (case (if includes_str (toUpperCase s) (str ''INFORMATION_SCHEMA'')
                       then qualifyTablePath s (projectId config) else Inr s) of
                   Inl e \<Rightarrow> (Inl e, [])
                 | Inr s' \<Rightarrow>
                     (let options = \<lparr>query = s', query_location = location config,
                                      query_maximumBytesBilled = bytes\<rparr>
                      in case bq_query bigquery options of
                           Inl e \<Rightarrow> (Inl e, [CallQuery options])
                         | Inr rows \<Rightarrow> (Inr \<lparr>content = rows, isError = False\<rparr>, [CallQuery options]))))
      else (Inl (Error (str ''Unknown tool: '' @ tool_name request)), []))"

section \<open>Notions of the specification\<close>

text \<open>
  The forbidden tokens, and what it is for a text to contain one of them as a whole word,
  in any casing: the occurrence is bounded on each side by an edge of the text or by a
  character that is not a word character.
\<close>

definition forbidden_tokens :: "jsstring list" where
  "forbidden_tokens = map str [''INSERT'', ''UPDATE'', ''DELETE'', ''CREATE'', ''DROP'', ''ALTER'',
     ''MERGE'', ''TRUNCATE'', ''GRANT'', ''REVOKE'', ''EXECUTE'', ''BEGIN'', ''COMMIT'', ''ROLLBACK'']"

definition whole_word :: "jsstring \<Rightarrow> jsstring \<Rightarrow> bool" where
  "whole_word tok s = (\<exists>pre w suf. s = pre @ w @ suf \<and> map canon w = map canon tok \<and>
      (pre = [] \<or> \<not> is_word (last pre)) \<and> (suf = [] \<or> \<not> is_word (hd suf)))"

definition contains_forbidden :: "jsstring \<Rightarrow> bool" where
  "contains_forbidden s = (\<exists>tok \<in> set forbidden_tokens. whole_word tok s)"

section \<open>Auxiliary functions of the proofs\<close>

text \<open>
  None of the functions of this section is part of the program: each one is related to
  the matcher by a lemma below and serves to reason about it or to evaluate it.
  \<open>ci_at w s i\<close>: the literal \<open>w\<close> stands at index \<open>i\<close> of \<open>s\<close>, up to case; \<open>ci_prefix w t\<close>:
  it stands at the head of \<open>t\<close>. \<open>alts\<close> is the alternation of literals. \<open>scan_forbidden\<close>
  looks for a forbidden token as a whole word from left to right, \<open>pw\<close> telling whether
  the character before is a word character.
\<close>

fun ci_at :: "jsstring \<Rightarrow> jsstring \<Rightarrow> nat \<Rightarrow> bool" where
  "ci_at [] s i = True"
| "ci_at (c # w) s i = (i < length s \<and> canon (s ! i) = canon c \<and> ci_at w s (Suc i))"

fun alts :: "jsstring list \<Rightarrow> regex" where
  "alts [] = Empty"
| "alts [t] = lits t"
| "alts (t # ts) = Alt (lits t) (alts ts)"

fun ci_prefix :: "jsstring \<Rightarrow> jsstring \<Rightarrow> bool" where
  "ci_prefix [] t = True"
| "ci_prefix (c # w) [] = False"
| "ci_prefix (c # w) (x # t) = (canon x = canon c \<and> ci_prefix w t)"

definition token_here :: "jsstring \<Rightarrow> jsstring \<Rightarrow> bool" where
  "token_here tok t =
     (ci_prefix tok t \<and> (case drop (length tok) t of [] \<Rightarrow> True | x # _ \<Rightarrow> \<not> is_word x))"

fun scan_forbidden :: "bool \<Rightarrow> jsstring \<Rightarrow> bool" where
  "scan_forbidden pw [] = False"
| "scan_forbidden pw (c # cs) =
     ((\<not> pw \<and> list_ex (\<lambda>tok. token_here tok (c # cs)) forbidden_tokens)
      \<or> scan_forbidden (is_word c) cs)"

section \<open>Sample values\<close>

text \<open>
  A configuration, a client and a case conversion for the concrete instances below. The
  sample client answers a query with its text and a metadata request with the identifiers
  it was asked for, so that an answer tells which table was read; as the client library
  does, it refuses to build the handle of a dataset from \<open>undefined\<close>. \<open>ascii_toUpperCase\<close>
  is \<open>toUpperCase\<close> on ASCII text.
\<close>

definition sample_config :: ServerConfig where
  "sample_config = \<lparr>projectId = str ''acme-data'', location = Some (str ''US''), keyFilename = None\<rparr>"

definition sample_client :: "(jsstring, jsstring option \<times> jsstring option) BigQuery" where
  "sample_client =
     \<lparr>bq_query = (\<lambda>options. Inr (query options)),
      bq_getDatasets = Inr [str ''sales''],
      bq_getTables = (\<lambda>d. Inr [str ''orders'', str ''table 01'']),
      bq_dataset = (\<lambda>d. case d of
                          None \<Rightarrow> Some (TypeError (str ''A dataset ID is required.''))
                        | Some x \<Rightarrow> None),
      bq_table = (\<lambda>d t. None),
      bq_getMetadata = (\<lambda>d t. Inr \<lparr>md_type = str ''TABLE'', md_fields = (d, t)\<rparr>)\<rparr>"

definition ascii_toUpperCase :: "jsstring \<Rightarrow> jsstring" where
  "ascii_toUpperCase s = map canon s"

section \<open>The URL class, on the resource identifiers of the server\<close>

text \<open>
  The handlers take the \<open>URL\<close> class of the runtime as a parameter. \<open>std_URL\<close> is an
  instance of it, written after the parsing and serialising algorithms of the URL Standard
  for the inputs that the resource identifiers of this server exercise: an absolute input
  \<open>scheme://host/path\<close> whose scheme is not a special one (\<open>http\<close>, \<open>file\<close> and the like),
  or an input without a scheme that does not start with \<open>/\<close>, resolved against such a
  base. Credentials, ports, bracketed hosts, queries, fragments, \<open>^\<close> and code units outside
  ASCII are not covered, and for an input that is not covered the instance gives \<open>None\<close>;
  the statements below use it only on inputs that are covered.

  \<open>url_trim\<close> strips leading and trailing C0 controls and spaces and removes tabs and
  newlines; \<open>split_scheme\<close> reads the scheme up to the colon; \<open>path_encode\<close> is the percent
  encoding of the path; \<open>path_state\<close> is the path state of the parser, with the segments
  read so far, the buffer and the input left.
\<close>

definition is_alpha :: "code_unit \<Rightarrow> bool" where
  "is_alpha c = ((65 \<le> c \<and> c \<le> 90) \<or> (97 \<le> c \<and> c \<le> 122))"

definition is_scheme_char :: "code_unit \<Rightarrow> bool" where
  "is_scheme_char c = (is_alpha c \<or> (48 \<le> c \<and> c \<le> 57) \<or> c = 43 \<or> c = 45 \<or> c = 46)"

definition to_lower :: "code_unit \<Rightarrow> code_unit" where
  "to_lower c = (if 65 \<le> c \<and> c \<le> 90 then c + 32 else c)"

definition url_trim :: "jsstring \<Rightarrow> jsstring" where
  "url_trim s = filter (\<lambda>c. c \<noteq> 9 \<and> c \<noteq> 10 \<and> c \<noteq> 13)
     (rev (dropWhile (\<lambda>c. c \<le> 32) (rev (dropWhile (\<lambda>c. c \<le> 32) s))))"

definition split_scheme :: "jsstring \<Rightarrow> (jsstring \<times> jsstring) option" where
  "split_scheme s =
     (case s of
        [] \<Rightarrow> None
      | c # cs \<Rightarrow>
          if is_alpha c then
            (case dropWhile is_scheme_char s of
               [] \<Rightarrow> None
             | x # rest \<Rightarrow> if x = 58 then Some (map to_lower (takeWhile is_scheme_char s), rest) else None)
          else None)"

definition special_schemes :: "jsstring list" where
  "special_schemes = map str [''ftp'', ''file'', ''http'', ''https'', ''ws'', ''wss'']"

definition hex_digit :: "nat \<Rightarrow> code_unit" where
  "hex_digit n = (if n < 10 then 48 + n else 55 + n)"

definition path_encode :: "code_unit \<Rightarrow> jsstring" where
  "path_encode c =
     (if c \<le> 32 \<or> c = 34 \<or> c = 60 \<or> c = 62 \<or> c = 96 \<or> c = 123 \<or> c = 125 \<or> c = 127
      then [37, hex_digit (c div 16), hex_digit (c mod 16)] else [c])"

definition path_modelled :: "code_unit \<Rightarrow> bool" where
  "path_modelled c = (c < 128 \<and> c \<noteq> 35 \<and> c \<noteq> 63 \<and> c \<noteq> 94)"

definition host_modelled :: "code_unit \<Rightarrow> bool" where
  "host_modelled c = (33 \<le> c \<and> c \<le> 126 \<and> c \<noteq> 35 \<and> c \<noteq> 47 \<and> c \<noteq> 58 \<and> c \<noteq> 60 \<and> c \<noteq> 62
     \<and> c \<noteq> 63 \<and> c \<noteq> 64 \<and> c \<noteq> 91 \<and> c \<noteq> 92 \<and> c \<noteq> 93 \<and> c \<noteq> 94 \<and> c \<noteq> 124)"

definition is_single_dot :: "jsstring \<Rightarrow> bool" where
  "is_single_dot b = (b = str ''.'' \<or> map to_lower b = str ''%2e'')"

definition is_double_dot :: "jsstring \<Rightarrow> bool" where
  "is_double_dot b = (map to_lower b \<in> set (map str [''..'', ''.%2e'', ''%2e.'', ''%2e%2e'']))"

fun path_state :: "jsstring list \<Rightarrow> jsstring \<Rightarrow> jsstring \<Rightarrow> jsstring list" where
  "path_state path buffer [] =
     (if is_double_dot buffer then butlast path @ [[]]
      else if is_single_dot buffer then path @ [[]]
      else path @ [buffer])"
| "path_state path buffer (c # cs) =
     (if c = 47 then
        path_state (if is_double_dot buffer then butlast path
                    else if is_single_dot buffer then path
                    else path @ [buffer]) [] cs
      else path_state path (buffer @ path_encode c) cs)"

record url =
  url_scheme :: jsstring
  url_host :: jsstring
  url_path :: "jsstring list"

definition parse_absolute :: "jsstring \<Rightarrow> url option" where
  "parse_absolute input =
     (case split_scheme (url_trim input) of
        None \<Rightarrow> None
      | Some (scheme, rest) \<Rightarrow>
          if scheme \<in> set special_schemes \<or> take 2 rest \<noteq> str ''//'' then None
          else (let host = takeWhile (\<lambda>c. c \<noteq> 47) (drop 2 rest);
                    p = dropWhile (\<lambda>c. c \<noteq> 47) (drop 2 rest)
                in if list_all host_modelled host \<and> list_all path_modelled p
                   then Some \<lparr>url_scheme = scheme, url_host = host,
                               url_path = (case p of [] \<Rightarrow> [] | _ # p' \<Rightarrow> path_state [] [] p')\<rparr>
                   else None))"

definition parse_relative :: "jsstring \<Rightarrow> url \<Rightarrow> url option" where
  "parse_relative input base =
     (let s = url_trim input
      in if split_scheme s \<noteq> None \<or> \<not> list_all path_modelled s then None
         else case s of
                [] \<Rightarrow> Some base
              | c # _ \<Rightarrow> if c = 47 then None
                         else Some (base\<lparr>url_path := path_state (butlast (url_path base)) [] s\<rparr>))"

definition pathname :: "url \<Rightarrow> jsstring" where
  "pathname u = concat (map (\<lambda>segment. 47 # segment) (url_path u))"

definition href :: "url \<Rightarrow> jsstring" where
  "href u = url_scheme u @ str ''://'' @ url_host u @ pathname u"

definition std_href :: "jsstring \<Rightarrow> jsstring option \<Rightarrow> jsstring option" where
  "std_href input base =
     (case base of
        None \<Rightarrow> map_option href (parse_absolute input)
      | Some b \<Rightarrow>
          (case parse_absolute b of
             None \<Rightarrow> None
           | Some base_url \<Rightarrow> map_option href (parse_relative input base_url)))"

definition std_pathname :: "jsstring \<Rightarrow> jsstring option" where
  "std_pathname input = map_option pathname (parse_absolute input)"

definition std_URL :: URL_api where
  "std_URL = \<lparr>URL_href = std_href, URL_pathname = std_pathname\<rparr>"

section \<open>The matcher on literals and on the pattern of the Safety Gate\<close>

lemma ms_lits: "ms (lits w) s st = (if ci_at w s (fst st) then [(fst st + length w, snd st)] else [])"
  by (induction w arbitrary: st) auto

lemma ms_alts: "ts \<noteq> [] \<Longrightarrow> ms (alts ts) s st = concat (map (\<lambda>t. ms (lits t) s st) ts)"
  by (induction ts rule: alts.induct) simp_all

lemma forbiddenPattern_alts: "forbiddenPattern = Seq WordB (Seq (Group (alts forbidden_tokens)) WordB)"
  by (simp add: forbiddenPattern_def forbidden_tokens_def)

lemma forbidden_tokens_ne: "forbidden_tokens \<noteq> []" by (simp add: forbidden_tokens_def)

lemma set_gate: "set (ms forbiddenPattern s (i, c)) =
   {(i + length tok, Some (i, i + length tok)) | tok. tok \<in> set forbidden_tokens \<and>
       at_boundary s i \<and> ci_at tok s i \<and> at_boundary s (i + length tok)}"
  by (auto simp add: forbiddenPattern_alts ms_alts[OF forbidden_tokens_ne] ms_lits split: if_splits)

lemma gate_at: "ms forbiddenPattern s (i, c) \<noteq> [] \<longleftrightarrow>
   at_boundary s i \<and> (\<exists>tok \<in> set forbidden_tokens. ci_at tok s i \<and> at_boundary s (i + length tok))"
proof -
  have "ms forbiddenPattern s (i, c) \<noteq> [] \<longleftrightarrow> set (ms forbiddenPattern s (i, c)) \<noteq> {}"
    by simp
  then show ?thesis unfolding set_gate by blast
qed

lemma is_word_canon: "is_word (canon c) = is_word c"
  by (auto simp: is_word_def canon_def)

lemma canon_eq_word: "canon x = canon y \<Longrightarrow> is_word x = is_word y"
  by (metis is_word_canon)

lemma ci_at_take_drop:
  "ci_at w s i \<longleftrightarrow> w = [] \<or> (i + length w \<le> length s \<and> map canon (take (length w) (drop i s)) = map canon w)"
proof (induction w arbitrary: i)
  case Nil
  show ?case by simp
next
  case (Cons c w)
  show ?case
  proof (cases "i < length s")
    case True
    then have d: "drop i s = s ! i # drop (Suc i) s" by (simp add: Cons_nth_drop_Suc)
    show ?thesis using True Cons[of "Suc i"] by (auto simp: d)
  next
    case False
    then show ?thesis by simp
  qed
qed

lemma last_take_nth: "0 < i \<Longrightarrow> i \<le> length s \<Longrightarrow> last (take i s) = s ! (i - 1)"
proof -
  assume a: "0 < i" "i \<le> length s"
  then have "take i s \<noteq> []" by auto
  from last_conv_nth[OF this] a show ?thesis by (simp add: min_def)
qed

lemma hd_take_drop_nth: "0 < n \<Longrightarrow> i + n \<le> length s \<Longrightarrow> hd (take n (drop i s)) = s ! i"
  by (cases n) (auto simp: hd_drop_conv_nth)

lemma last_take_drop_nth:
  "0 < n \<Longrightarrow> i + n \<le> length s \<Longrightarrow> last (take n (drop i s)) = s ! (i + n - 1)"
proof -
  assume a: "0 < n" "i + n \<le> length s"
  then have ne: "take n (drop i s) \<noteq> []" by auto
  have len: "length (take n (drop i s)) = n" using a by simp
  have "last (take n (drop i s)) = take n (drop i s) ! (n - 1)"
    using last_conv_nth[OF ne] len by simp
  also have "\<dots> = s ! (i + (n - 1))" using a by simp
  also have "i + (n - 1) = i + n - 1" using a by simp
  finally show ?thesis .
qed

lemma whole_word_iff:
  assumes ne: "tok \<noteq> []" and h: "is_word (hd tok)" and l: "is_word (last tok)"
  shows "whole_word tok s \<longleftrightarrow>
    (\<exists>i. i \<le> length s \<and> at_boundary s i \<and> ci_at tok s i \<and> at_boundary s (i + length tok))"
proof
  assume "whole_word tok s"
  then obtain pre w suf where s: "s = pre @ w @ suf" and w: "map canon w = map canon tok"
    and p: "pre = [] \<or> \<not> is_word (last pre)" and q: "suf = [] \<or> \<not> is_word (hd suf)"
    unfolding whole_word_def by blast
  from w have len: "length w = length tok" by (metis length_map)
  with ne have wne: "w \<noteq> []" by auto
  from w wne have "canon (hd w) = canon (hd tok)" by (metis hd_map ne)
  with h have hw: "is_word (hd w)" by (metis canon_eq_word)
  from w wne have "canon (last w) = canon (last tok)" by (metis last_map ne)
  with l have lw: "is_word (last w)" by (metis canon_eq_word)
  let ?i = "length pre"
  have c: "ci_at tok s ?i" using s w len by (simp add: ci_at_take_drop)
  have w0: "word_at s ?i" using s wne hw by (cases w) (auto simp: word_at_def nth_append)
  have b1: "at_boundary s ?i"
    using p w0 s by (cases pre rule: rev_cases) (auto simp: at_boundary_def word_at_def nth_append)
  have w1: "0 < ?i + length tok \<and> word_at s (?i + length tok - 1)"
    using s wne lw len by (cases w rule: rev_cases) (auto simp: word_at_def nth_append)
  have w2: "\<not> word_at s (?i + length tok)"
    using q s len by (cases suf) (auto simp: word_at_def nth_append)
  have b2: "at_boundary s (?i + length tok)"
    using w1 w2 by (simp add: at_boundary_def)
  show "\<exists>i. i \<le> length s \<and> at_boundary s i \<and> ci_at tok s i \<and> at_boundary s (i + length tok)"
    using b1 b2 c s by (intro exI[of _ ?i]) simp
next
  assume "\<exists>i. i \<le> length s \<and> at_boundary s i \<and> ci_at tok s i \<and> at_boundary s (i + length tok)"
  then obtain i where i: "i \<le> length s" and b1: "at_boundary s i" and c: "ci_at tok s i"
    and b2: "at_boundary s (i + length tok)" by blast
  let ?n = "length tok"
  from c ne have le: "i + ?n \<le> length s"
    and w: "map canon (take ?n (drop i s)) = map canon tok"
    by (simp_all add: ci_at_take_drop)
  let ?pre = "take i s" and ?w = "take ?n (drop i s)" and ?suf = "drop (i + ?n) s"
  have s: "s = ?pre @ ?w @ ?suf"
    by (metis append_take_drop_id drop_drop add.commute)
  have lenw: "length ?w = ?n" using le by simp
  then have wne: "?w \<noteq> []" using ne by (metis length_0_conv)
  from w wne have "canon (hd ?w) = canon (hd tok)" by (metis hd_map ne)
  with h have hw: "is_word (hd ?w)" by (metis canon_eq_word)
  from w wne have "canon (last ?w) = canon (last tok)" by (metis last_map ne)
  with l have lw: "is_word (last ?w)" by (metis canon_eq_word)
  have n0: "0 < ?n" using ne by simp
  have lt: "i < length s" "i + ?n - 1 < length s" using le n0 by linarith+
  have "hd ?w = s ! i" using le n0 by (rule hd_take_drop_nth[rotated])
  with hw lt have w0: "word_at s i" by (simp add: word_at_def)
  have "last ?w = s ! (i + ?n - 1)" using le n0 by (rule last_take_drop_nth[rotated])
  with lw lt have w1: "word_at s (i + ?n - 1)" by (simp add: word_at_def)
  from b1 w0 have p0: "\<not> (0 < i \<and> word_at s (i - 1))" by (simp add: at_boundary_def)
  from b2 w1 n0 have q0: "\<not> word_at s (i + ?n)" by (simp add: at_boundary_def)
  have p: "?pre = [] \<or> \<not> is_word (last ?pre)"
  proof (cases "i = 0")
    case True then show ?thesis by simp
  next
    case False
    then have "last ?pre = s ! (i - 1)" using i by (simp add: last_take_nth)
    with p0 False i show ?thesis by (simp add: word_at_def)
  qed
  have q: "?suf = [] \<or> \<not> is_word (hd ?suf)"
  proof (cases "i + ?n < length s")
    case True
    then have "hd ?suf = s ! (i + ?n)" by (simp add: hd_drop_conv_nth)
    with q0 True show ?thesis by (simp add: word_at_def)
  next
    case False then show ?thesis by simp
  qed
  show "whole_word tok s" unfolding whole_word_def using s w p q by blast
qed

lemma exec_None_iff: "exec r s i \<noteq> None \<longleftrightarrow> ms r s (i, None) \<noteq> []"
  by (simp add: exec_def split: list.splits)

lemma forbidden_tokens_word:
  "tok \<in> set forbidden_tokens \<Longrightarrow> tok \<noteq> [] \<and> is_word (hd tok) \<and> is_word (last tok)"
  by (auto simp: forbidden_tokens_def str_def is_word_def)

lemma re_test_forbidden_iff:
  "re_test forbiddenPattern s \<longleftrightarrow>
     (\<exists>i \<le> length s. at_boundary s i \<and>
        (\<exists>tok \<in> set forbidden_tokens. ci_at tok s i \<and> at_boundary s (i + length tok)))"
proof -
  have "re_test forbiddenPattern s \<longleftrightarrow> (\<exists>i \<in> set [0..<Suc (length s)]. ms forbiddenPattern s (i, None) \<noteq> [])"
    unfolding re_test_def list_ex_iff exec_None_iff ..
  also have "\<dots> \<longleftrightarrow> (\<exists>i. i \<le> length s \<and> ms forbiddenPattern s (i, None) \<noteq> [])"
    by (simp only: set_upt atLeastLessThan_iff less_Suc_eq_le Bex_def le0 simp_thms)
  finally show ?thesis unfolding gate_at by blast
qed

lemma forbidden_test_iff: "re_test forbiddenPattern s \<longleftrightarrow> contains_forbidden s"
proof -
  have "\<And>tok. tok \<in> set forbidden_tokens \<Longrightarrow> whole_word tok s \<longleftrightarrow>
    (\<exists>i. i \<le> length s \<and> at_boundary s i \<and> ci_at tok s i \<and> at_boundary s (i + length tok))"
    using forbidden_tokens_word by (intro whole_word_iff) blast+
  then have "contains_forbidden s \<longleftrightarrow> (\<exists>tok \<in> set forbidden_tokens. \<exists>i. i \<le> length s \<and> at_boundary s i \<and> ci_at tok s i \<and> at_boundary s (i + length tok))"
    unfolding contains_forbidden_def by blast
  also have "\<dots> \<longleftrightarrow> re_test forbiddenPattern s"
    unfolding re_test_forbidden_iff by blast
  finally show ?thesis by simp
qed

lemma ci_prefix_iff: "ci_prefix w t \<longleftrightarrow> (\<exists>v suf. t = v @ suf \<and> map canon v = map canon w)"
proof (induction w t rule: ci_prefix.induct)
  case (1 t)
  show ?case by simp
next
  case (2 c w)
  show ?case by simp
next
  case (3 c w x t)
  show ?case
  proof
    assume "ci_prefix (c # w) (x # t)"
    with 3 obtain v suf where "t = v @ suf" "map canon v = map canon w" "canon x = canon c" by auto
    then have "x # t = (x # v) @ suf \<and> map canon (x # v) = map canon (c # w)" by simp
    then show "\<exists>v suf. x # t = v @ suf \<and> map canon v = map canon (c # w)" by blast
  next
    assume "\<exists>v suf. x # t = v @ suf \<and> map canon v = map canon (c # w)"
    then obtain v suf where v: "x # t = v @ suf" "map canon v = map canon (c # w)" by blast
    then obtain y v' where "v = y # v'" by (cases v) auto
    with v 3 show "ci_prefix (c # w) (x # t)" by auto
  qed
qed

lemma token_here_iff:
  "token_here tok t \<longleftrightarrow>
     (\<exists>v suf. t = v @ suf \<and> map canon v = map canon tok \<and> (suf = [] \<or> \<not> is_word (hd suf)))"
proof
  assume a: "token_here tok t"
  then obtain v suf where v: "t = v @ suf" "map canon v = map canon tok"
    unfolding token_here_def ci_prefix_iff by blast
  then have "length v = length tok" by (metis length_map)
  with v have "drop (length tok) t = suf" by simp
  with a have "suf = [] \<or> \<not> is_word (hd suf)" by (cases suf) (auto simp: token_here_def)
  with v show "\<exists>v suf. t = v @ suf \<and> map canon v = map canon tok \<and> (suf = [] \<or> \<not> is_word (hd suf))"
    by blast
next
  assume "\<exists>v suf. t = v @ suf \<and> map canon v = map canon tok \<and> (suf = [] \<or> \<not> is_word (hd suf))"
  then obtain v suf where v: "t = v @ suf" "map canon v = map canon tok"
    and s: "suf = [] \<or> \<not> is_word (hd suf)" by blast
  then have "length v = length tok" by (metis length_map)
  with v have d: "drop (length tok) t = suf" by simp
  have "ci_prefix tok t" unfolding ci_prefix_iff using v by blast
  with d s show "token_here tok t" by (cases suf) (auto simp: token_here_def)
qed

lemma scan_forbidden_iff:
  "scan_forbidden pw s \<longleftrightarrow>
     (\<exists>tok \<in> set forbidden_tokens. \<exists>pre w suf. s = pre @ w @ suf \<and> map canon w = map canon tok \<and>
        (pre = [] \<and> \<not> pw \<or> pre \<noteq> [] \<and> \<not> is_word (last pre)) \<and> (suf = [] \<or> \<not> is_word (hd suf)))"
  (is "_ \<longleftrightarrow> ?R pw s")
proof (induction s arbitrary: pw)
  case Nil
  have "\<And>tok. tok \<in> set forbidden_tokens \<Longrightarrow> tok \<noteq> []"
    using forbidden_tokens_word by blast
  then show ?case by auto
next
  case (Cons c cs)
  show ?case
  proof
    assume "scan_forbidden pw (c # cs)"
    then consider (here) "\<not> pw" "\<exists>tok \<in> set forbidden_tokens. token_here tok (c # cs)"
      | (later) "scan_forbidden (is_word c) cs" by (auto simp: list_ex_iff)
    then show "?R pw (c # cs)"
    proof cases
      case here
      then obtain tok v suf where h: "tok \<in> set forbidden_tokens" "c # cs = v @ suf"
        "map canon v = map canon tok" "suf = [] \<or> \<not> is_word (hd suf)"
        unfolding token_here_iff by blast
      show ?thesis
        apply (rule bexI[OF _ h(1)])
        apply (rule exI[of _ "[]"])
        apply (rule exI[of _ v])
        apply (rule exI[of _ suf])
        using h here(1) apply simp
        done
    next
      case later
      with Cons obtain tok pre w suf where t: "tok \<in> set forbidden_tokens" "cs = pre @ w @ suf"
        "map canon w = map canon tok" "pre = [] \<and> \<not> is_word c \<or> pre \<noteq> [] \<and> \<not> is_word (last pre)"
        "suf = [] \<or> \<not> is_word (hd suf)" by blast
      from t(4) have l: "\<not> is_word (last (c # pre))" by auto
      show ?thesis
        apply (rule bexI[OF _ t(1)])
        apply (rule exI[of _ "c # pre"])
        apply (rule exI[of _ w])
        apply (rule exI[of _ suf])
        using t(2,3,5) l apply simp
        done
    qed
  next
    assume "?R pw (c # cs)"
    then obtain tok pre w suf where t: "tok \<in> set forbidden_tokens" "c # cs = pre @ w @ suf"
      "map canon w = map canon tok" "pre = [] \<and> \<not> pw \<or> pre \<noteq> [] \<and> \<not> is_word (last pre)"
      "suf = [] \<or> \<not> is_word (hd suf)" by blast
    show "scan_forbidden pw (c # cs)"
    proof (cases pre)
      case Nil
      with t have "token_here tok (c # cs)" "\<not> pw" unfolding token_here_iff by auto
      with t(1) show ?thesis by (auto simp: list_ex_iff)
    next
      case (Cons x pre')
      with t(2,4) have "cs = pre' @ w @ suf" "pre' = [] \<and> \<not> is_word c \<or> pre' \<noteq> [] \<and> \<not> is_word (last pre')"
        by (auto split: if_splits)
      with t(1,3,5) have "?R (is_word c) cs" by blast
      with Cons.IH show ?thesis by simp
    qed
  qed
qed

lemma contains_forbidden_code: "contains_forbidden s = scan_forbidden False s"
proof -
  have "\<And>pre::jsstring. (pre = [] \<and> \<not> False \<or> pre \<noteq> [] \<and> \<not> is_word (last pre)) = (pre = [] \<or> \<not> is_word (last pre))"
    by blast
  then show ?thesis
    unfolding scan_forbidden_iff contains_forbidden_def whole_word_def by simp
qed

section \<open>The Safety Gate and the tool handler\<close>

lemmas gate_eval = contains_forbidden_code forbidden_tokens_def token_here_def str_def
  is_word_def canon_def

lemma callTool_forbidden:
  "tool_name request = str ''query'' \<Longrightarrow> sql request = Some s \<Longrightarrow> re_test forbiddenPattern s
   \<Longrightarrow> callTool toUpperCase config bigquery request = (Inl read_only_violation, [])"
  by (simp add: callTool_def)

text \<open>
  C1. The test of the Safety Gate, on which the handler throws, holds exactly for the SQL
  texts that contain a forbidden token as a whole word, in any casing: such a text is
  rejected, and a text in which the tokens occur only inside larger identifiers passes.
\<close>

theorem safety_gate_whole_word: "re_test forbiddenPattern s \<longleftrightarrow> contains_forbidden s"
  by (rule forbidden_test_iff)

text \<open>C1 at two inputs: a \<open>DROP\<close> statement, and a query over a column \<open>created_by\<close>.\<close>

theorem safety_gate_whole_word_witness:
  "contains_forbidden (str ''DROP TABLE sales.orders'')
   \<and> re_test forbiddenPattern (str ''DROP TABLE sales.orders'')
   \<and> \<not> contains_forbidden (str ''SELECT created_by FROM t'')
   \<and> \<not> re_test forbiddenPattern (str ''SELECT created_by FROM t'')"
proof -
  have a: "contains_forbidden (str ''DROP TABLE sales.orders'')" by (simp add: gate_eval)
  have b: "\<not> contains_forbidden (str ''SELECT created_by FROM t'')" by (simp add: gate_eval)
  from a b show ?thesis
    using safety_gate_whole_word [of "str ''DROP TABLE sales.orders''"]
      safety_gate_whole_word [of "str ''SELECT created_by FROM t''"] by blast
qed

text \<open>
  C2. An invocation of the tool \<open>query\<close> whose SQL contains a forbidden token as a whole word
  ends with the error of the Safety Gate and with no call to the client of the warehouse,
  whatever the qualifier would have done with the text.
\<close>

theorem gate_rejects_before_any_call:
  assumes "tool_name request = str ''query''" and "sql request = Some s"
    and "contains_forbidden s"
  shows "callTool toUpperCase config bigquery request = (Inl read_only_violation, [])"
  using assms by (simp add: callTool_forbidden forbidden_test_iff)

text \<open>C2 on \<open>DROP TABLE sales.orders\<close>.\<close>

theorem gate_rejects_before_any_call_witness:
  "contains_forbidden (str ''DROP TABLE sales.orders'')
   \<and> callTool ascii_toUpperCase sample_config sample_client
        \<lparr>tool_name = str ''query'', sql = Some (str ''DROP TABLE sales.orders''),
         maximumBytesBilled = None\<rparr> = (Inl read_only_violation, [])"
proof -
  have a: "contains_forbidden (str ''DROP TABLE sales.orders'')" by (simp add: gate_eval)
  show ?thesis
    using a gate_rejects_before_any_call [of "\<lparr>tool_name = str ''query'',
      sql = Some (str ''DROP TABLE sales.orders''), maximumBytesBilled = None\<rparr>"
      "str ''DROP TABLE sales.orders''" ascii_toUpperCase sample_config sample_client]
    by simp
qed

text \<open>
  C8, as stated: the error of a rejection would name the matched token. The rejection of
  \<open>DROP TABLE sales.orders\<close> carries the message \<open>Only READ operations are allowed\<close>, in which
  \<open>DROP\<close> does not occur in any casing.
\<close>

theorem gate_error_names_token_counterexample:
  "fst (callTool ascii_toUpperCase sample_config sample_client
      \<lparr>tool_name = str ''query'', sql = Some (str ''DROP TABLE sales.orders''),
       maximumBytesBilled = None\<rparr>) = Inl (Error (str ''Only READ operations are allowed''))
   \<and> \<not> includes_str (map canon (str ''Only READ operations are allowed'')) (str ''DROP'')"
proof -
  have a: "re_test forbiddenPattern (str ''DROP TABLE sales.orders'')"
    by (simp add: forbidden_test_iff gate_eval)
  have b: "\<not> includes_str (map canon (str ''Only READ operations are allowed'')) (str ''DROP'')"
    by (simp add: includes_str_def str_def canon_def)
  from a b show ?thesis
    by (simp add: callTool_forbidden read_only_violation_def)
qed

text \<open>
  C8, amended: every SQL text rejected by the Safety Gate fails with the same error, whose
  message is \<open>Only READ operations are allowed\<close>, whichever token was matched.
\<close>

theorem gate_error_fixed_message:
  assumes "tool_name request = str ''query''" and "sql request = Some s"
    and "re_test forbiddenPattern s"
  shows "fst (callTool toUpperCase config bigquery request)
           = Inl (Error (str ''Only READ operations are allowed''))"
  using assms by (simp add: callTool_forbidden read_only_violation_def)

text \<open>C8, amended, on \<open>DELETE FROM t\<close>.\<close>

theorem gate_error_fixed_message_witness:
  "re_test forbiddenPattern (str ''DELETE FROM t'')
   \<and> fst (callTool ascii_toUpperCase sample_config sample_client
        \<lparr>tool_name = str ''query'', sql = Some (str ''DELETE FROM t''), maximumBytesBilled = None\<rparr>)
       = Inl (Error (str ''Only READ operations are allowed''))"
proof -
  have a: "re_test forbiddenPattern (str ''DELETE FROM t'')"
    by (simp add: forbidden_test_iff gate_eval)
  show ?thesis
    using a gate_error_fixed_message [of "\<lparr>tool_name = str ''query'',
      sql = Some (str ''DELETE FROM t''), maximumBytesBilled = None\<rparr>"
      "str ''DELETE FROM t''" ascii_toUpperCase sample_config sample_client]
    by simp
qed

text \<open>
  C7. Without \<open>--location\<close> the configuration that \<open>parseArgs\<close> builds has the region \<open>US\<close>,
  not \<open>EU\<close>, and \<open>US\<close> is the region submitted with a query.
\<close>

theorem default_location_is_US:
  "parseArgs [str ''--project-id'', str ''acme-data'']
     = Inr \<lparr>projectId = str ''acme-data'', location = Some (str ''US''), keyFilename = None\<rparr>
   \<and> Some (str ''US'') \<noteq> Some (str ''EU'')
   \<and> callTool ascii_toUpperCase
        \<lparr>projectId = str ''acme-data'', location = Some (str ''US''), keyFilename = None\<rparr>
        sample_client
        \<lparr>tool_name = str ''query'', sql = Some (str ''SELECT 1''), maximumBytesBilled = None\<rparr>
     = (Inr \<lparr>content = str ''SELECT 1'', isError = False\<rparr>,
        [CallQuery \<lparr>query = str ''SELECT 1'', query_location = Some (str ''US''),
                    query_maximumBytesBilled = str ''1000000000''\<rparr>])"
proof -
  have a: "parseArgs [str ''--project-id'', str ''acme-data'']
     = Inr \<lparr>projectId = str ''acme-data'', location = Some (str ''US''), keyFilename = None\<rparr>"
    by (simp add: parseArgs_def startsWith_def str_def)
  have b: "\<not> re_test forbiddenPattern (str ''SELECT 1'')"
    by (simp add: forbidden_test_iff gate_eval)
  have c: "\<not> includes_str (ascii_toUpperCase (str ''SELECT 1'')) (str ''INFORMATION_SCHEMA'')"
    by (simp add: includes_str_def ascii_toUpperCase_def str_def canon_def)
  have d: "str ''US'' \<noteq> str ''EU''" by (simp add: str_def)
  from a b c d show ?thesis
    by (simp add: callTool_def sample_client_def)
qed

section \<open>The resource handlers\<close>

lemmas url_eval = std_URL_def std_href_def std_pathname_def href_def pathname_def parse_relative_def
  parse_absolute_def is_double_dot_def is_single_dot_def host_modelled_def path_modelled_def
  path_encode_def hex_digit_def special_schemes_def split_scheme_def url_trim_def to_lower_def
  is_scheme_char_def is_alpha_def str_def

lemma split_on_ne: "split_on sep s \<noteq> []"
  by (induction s) (auto split: list.splits)

lemma split_on_Cons_sep: "split_on sep (sep # s) = [] # split_on sep s"
  by simp

lemma pop_ne: "xs \<noteq> [] \<Longrightarrow> pop xs = (Some (last xs), butlast xs)"
  by (simp add: pop_def)

lemma pop_second:
  "fst (pop (butlast xs)) = (if 2 \<le> length xs then Some (xs ! (length xs - 2)) else None)"
proof (cases xs rule: rev_cases)
  case Nil
  then show ?thesis by (simp add: pop_def)
next
  case (snoc ys y)
  then show ?thesis by (cases ys rule: rev_cases) (simp_all add: pop_def nth_append butlast_append)
qed

lemma pop_third:
  "fst (pop (snd (pop (butlast xs)))) = (if 3 \<le> length xs then Some (xs ! (length xs - 3)) else None)"
proof (cases xs rule: rev_cases)
  case Nil
  then show ?thesis by (simp add: pop_def)
next
  case (snoc ys y)
  show ?thesis
  proof (cases ys rule: rev_cases)
    case Nil
    with snoc show ?thesis by (simp add: pop_def)
  next
    case (snoc zs z)
    with \<open>xs = ys @ [y]\<close> show ?thesis
      by (cases zs rule: rev_cases) (simp_all add: pop_def nth_append butlast_append)
  qed
qed

lemma readResource_marker_mismatch:
  "URL_pathname U request_uri = Some p \<Longrightarrow> last (split_on 47 p) \<noteq> SCHEMA_PATH
   \<Longrightarrow> readResource U bigquery request_uri = (Inl (Error (str ''Invalid resource URI'')), [])"
  by (simp add: readResource_def Let_def pop_ne split_on_ne split: prod.splits)

text \<open>
  C6. A resource URI whose path does not end with the segment \<open>schema\<close> is refused with the
  error \<open>Invalid resource URI\<close>, and no metadata is fetched.
\<close>

theorem readResource_rejects_other_marker:
  assumes "URL_pathname U request_uri = Some p" and "last (split_on 47 p) \<noteq> SCHEMA_PATH"
  shows "readResource U bigquery request_uri = (Inl (Error (str ''Invalid resource URI'')), [])"
  using assms by (rule readResource_marker_mismatch)

text \<open>C6 on a URI that ends with \<open>/orders/metadata\<close>.\<close>

theorem readResource_rejects_other_marker_witness:
  "URL_pathname std_URL (str ''bigquery://acme-data/sales/orders/metadata'')
     = Some (str ''/sales/orders/metadata'')
   \<and> last (split_on 47 (str ''/sales/orders/metadata'')) \<noteq> SCHEMA_PATH
   \<and> readResource std_URL sample_client (str ''bigquery://acme-data/sales/orders/metadata'')
     = (Inl (Error (str ''Invalid resource URI'')), [])"
proof -
  have a: "URL_pathname std_URL (str ''bigquery://acme-data/sales/orders/metadata'')
     = Some (str ''/sales/orders/metadata'')" by (simp add: url_eval)
  have b: "last (split_on 47 (str ''/sales/orders/metadata'')) \<noteq> SCHEMA_PATH"
    by (simp add: SCHEMA_PATH_def str_def)
  from a b readResource_rejects_other_marker [OF a b, of sample_client] show ?thesis by simp
qed

text \<open>
  C9, as stated: the identifiers popped from a path that ends with \<open>schema\<close> and has fewer
  than three segments would be passed on to the metadata fetch. On
  \<open>bigquery://acme-data/schema\<close> the handler does pass the test of the marker, but the
  dataset identifier is \<open>undefined\<close>, building the handle of the dataset throws, and no
  metadata is fetched.
\<close>

theorem readResource_short_path_counterexample:
  "URL_pathname std_URL (str ''bigquery://acme-data/schema'') = Some (str ''/schema'')
   \<and> last (split_on 47 (str ''/schema'')) = SCHEMA_PATH
   \<and> readResource std_URL sample_client (str ''bigquery://acme-data/schema'')
     = (Inl (TypeError (str ''A dataset ID is required.'')), [])"
proof -
  have a: "URL_pathname std_URL (str ''bigquery://acme-data/schema'') = Some (str ''/schema'')"
    by (simp add: url_eval)
  have s: "split_on 47 (str ''/schema'') = [[], str ''schema'']" by (simp add: str_def)
  have r: "readResource std_URL sample_client (str ''bigquery://acme-data/schema'')
     = (Inl (TypeError (str ''A dataset ID is required.'')), [])"
    using a by (simp add: readResource_def s pop_def SCHEMA_PATH_def sample_client_def)
  from a s r show ?thesis by (simp add: SCHEMA_PATH_def)
qed

text \<open>
  C9, amended: for every resource URI whose path ends with the component \<open>schema\<close>, however
  few components it has and whether or not it starts with a slash, the handler applies no
  validation of its own beyond the test of the marker. The table and dataset identifiers
  are popped all the same, as a component, as the empty string or as \<open>undefined\<close>, and
  handed to \<open>bigquery.dataset\<close> and \<open>dataset.table\<close>; the outcome of the handler is the
  outcome of the client: the error that one of these two calls throws, with no fetch, or
  else the outcome of the metadata fetch.
\<close>

theorem readResource_marker_is_only_check:
  assumes "URL_pathname U request_uri = Some p" and "last (split_on 47 p) = SCHEMA_PATH"
  shows "readResource U bigquery request_uri =
     (let n = length (split_on 47 p);
          tableId = (if 2 \<le> n then Some (split_on 47 p ! (n - 2)) else None);
          datasetId = (if 3 \<le> n then Some (split_on 47 p ! (n - 3)) else None)
      in case bq_dataset bigquery datasetId of
           Some e \<Rightarrow> (Inl e, [])
         | None \<Rightarrow>
             (case bq_table bigquery datasetId tableId of
                Some e \<Rightarrow> (Inl e, [])
              | None \<Rightarrow>
                  (case bq_getMetadata bigquery datasetId tableId of
                     Inl e \<Rightarrow> (Inl e, [CallGetMetadata datasetId tableId])
                   | Inr metadata \<Rightarrow>
                       (Inr \<lparr>rc_uri = request_uri, rc_mimeType = str ''application/json'',
                             rc_text = md_fields metadata\<rparr>,
                        [CallGetMetadata datasetId tableId]))))"
proof -
  let ?cs = "split_on 47 p"
  have ne: "?cs \<noteq> []" by (rule split_on_ne)
  have p1: "pop ?cs = (Some SCHEMA_PATH, butlast ?cs)" using ne assms(2) by (simp add: pop_def)
  have p2: "fst (pop (butlast ?cs)) = (if 2 \<le> length ?cs then Some (?cs ! (length ?cs - 2)) else None)"
    by (rule pop_second)
  have p3: "fst (pop (snd (pop (butlast ?cs)))) = (if 3 \<le> length ?cs then Some (?cs ! (length ?cs - 3)) else None)"
    by (rule pop_third)
  have s1: "snd (pop ?cs) = butlast ?cs" and f1: "fst (pop ?cs) = Some SCHEMA_PATH"
    using p1 by simp_all
  have r: "readResource U bigquery request_uri =
     (case bq_dataset bigquery (fst (pop (snd (pop (snd (pop ?cs)))))) of
        Some e \<Rightarrow> (Inl e, [])
      | None \<Rightarrow>
          (case bq_table bigquery (fst (pop (snd (pop (snd (pop ?cs)))))) (fst (pop (snd (pop ?cs)))) of
             Some e \<Rightarrow> (Inl e, [])
           | None \<Rightarrow>
               (case bq_getMetadata bigquery (fst (pop (snd (pop (snd (pop ?cs))))))
                       (fst (pop (snd (pop ?cs)))) of
                  Inl e \<Rightarrow> (Inl e, [CallGetMetadata (fst (pop (snd (pop (snd (pop ?cs))))))
                                      (fst (pop (snd (pop ?cs))))])
                | Inr metadata \<Rightarrow>
                    (Inr \<lparr>rc_uri = request_uri, rc_mimeType = str ''application/json'',
                          rc_text = md_fields metadata\<rparr>,
                     [CallGetMetadata (fst (pop (snd (pop (snd (pop ?cs))))))
                        (fst (pop (snd (pop ?cs))))]))))"
    using assms(1) by (simp add: readResource_def Let_def case_prod_beta f1)
  show ?thesis unfolding r s1 p2 p3 Let_def ..
qed

text \<open>C9, amended, on \<open>bigquery://acme-data/orders/schema\<close>, whose dataset is the empty string.\<close>

theorem readResource_marker_is_only_check_witness:
  "URL_pathname std_URL (str ''bigquery://acme-data/orders/schema'') = Some (str ''/orders/schema'')
   \<and> last (split_on 47 (str ''/orders/schema'')) = SCHEMA_PATH
   \<and> readResource std_URL sample_client (str ''bigquery://acme-data/orders/schema'')
     = (Inr \<lparr>rc_uri = str ''bigquery://acme-data/orders/schema'',
              rc_mimeType = str ''application/json'',
              rc_text = (Some [], Some (str ''orders''))\<rparr>,
        [CallGetMetadata (Some []) (Some (str ''orders''))])"
proof -
  have a: "URL_pathname std_URL (str ''bigquery://acme-data/orders/schema'') = Some (str ''/orders/schema'')"
    by (simp add: url_eval)
  have s: "split_on 47 (str ''/orders/schema'') = [[], str ''orders'', str ''schema'']"
    by (simp add: str_def)
  have b: "last (split_on 47 (str ''/orders/schema'')) = SCHEMA_PATH"
    by (simp add: s SCHEMA_PATH_def)
  from a b readResource_marker_is_only_check [OF a b, of sample_client] show ?thesis
    by (simp add: s sample_client_def Let_def)
qed

text \<open>
  C5. The dataset \<open>sales\<close> has a table named \<open>table 01\<close>. The listing gives it the URI
  \<open>bigquery://acme-data/sales/table%2001/schema\<close>: the URL class percent-encodes the space.
  Reading that URI passes the check of the marker and fetches the table \<open>table%2001\<close> of
  \<open>sales\<close>, since the handler does not decode the segment; it is not the table listed.
\<close>

theorem listed_uri_of_spaced_table_reads_other_table:
  "fst (listResources std_URL (str ''bigquery://acme-data'') sample_client)
     = Inr [\<lparr>uri = str ''bigquery://acme-data/sales/orders/schema'',
             mimeType = str ''application/json'', name = str ''\"sales.orders\" table schema''\<rparr>,
            \<lparr>uri = str ''bigquery://acme-data/sales/table%2001/schema'',
             mimeType = str ''application/json'', name = str ''\"sales.table 01\" table schema''\<rparr>]
   \<and> readResource std_URL sample_client (str ''bigquery://acme-data/sales/table%2001/schema'')
     = (Inr \<lparr>rc_uri = str ''bigquery://acme-data/sales/table%2001/schema'',
              rc_mimeType = str ''application/json'',
              rc_text = (Some (str ''sales''), Some (str ''table%2001''))\<rparr>,
        [CallGetMetadata (Some (str ''sales'')) (Some (str ''table%2001''))])
   \<and> str ''table%2001'' \<noteq> str ''table 01''"
proof -
  have a: "URL_href std_URL (str ''sales/orders/schema'') (Some (str ''bigquery://acme-data''))
      = Some (str ''bigquery://acme-data/sales/orders/schema'')"
    by (simp add: url_eval)
  have b: "URL_href std_URL (str ''sales/table 01/schema'') (Some (str ''bigquery://acme-data''))
      = Some (str ''bigquery://acme-data/sales/table%2001/schema'')"
    by (simp add: url_eval)
  have c: "URL_pathname std_URL (str ''bigquery://acme-data/sales/table%2001/schema'')
      = Some (str ''/sales/table%2001/schema'')"
    by (simp add: url_eval)
  have a': "URL_href std_URL (str ''sales'' @ str ''/'' @ str ''orders'' @ str ''/'' @ SCHEMA_PATH) (Some (str ''bigquery://acme-data''))
      = Some (str ''bigquery://acme-data/sales/orders/schema'')"
    using a by (simp add: str_def SCHEMA_PATH_def)
  have b': "URL_href std_URL (str ''sales'' @ str ''/'' @ str ''table 01'' @ str ''/'' @ SCHEMA_PATH) (Some (str ''bigquery://acme-data''))
      = Some (str ''bigquery://acme-data/sales/table%2001/schema'')"
    using b by (simp add: str_def SCHEMA_PATH_def)
  have l: "fst (listResources std_URL (str ''bigquery://acme-data'') sample_client)
     = Inr [\<lparr>uri = str ''bigquery://acme-data/sales/orders/schema'',
             mimeType = str ''application/json'', name = str ''\"sales.orders\" table schema''\<rparr>,
            \<lparr>uri = str ''bigquery://acme-data/sales/table%2001/schema'',
             mimeType = str ''application/json'', name = str ''\"sales.table 01\" table schema''\<rparr>]"
    using a' b' by (simp add: listResources_def sample_client_def str_def)
  have s: "split_on 47 (str ''/sales/table%2001/schema'')
      = [[], str ''sales'', str ''table%2001'', str ''schema'']"
    by (simp add: str_def)
  have r: "readResource std_URL sample_client (str ''bigquery://acme-data/sales/table%2001/schema'')
     = (Inr \<lparr>rc_uri = str ''bigquery://acme-data/sales/table%2001/schema'',
              rc_mimeType = str ''application/json'',
              rc_text = (Some (str ''sales''), Some (str ''table%2001''))\<rparr>,
        [CallGetMetadata (Some (str ''sales'')) (Some (str ''table%2001''))])"
    using c by (simp add: readResource_def s pop_def SCHEMA_PATH_def sample_client_def)
  have n: "str ''table%2001'' \<noteq> str ''table 01''" by (simp add: str_def)
  from l r n show ?thesis by blast
qed

end
